theory Spec2Isabelle
  imports Main "HOL-Library.Word"
begin

section \<open>The tray binding of shell/browser/api/electron\_api\_tray.cc\<close>

text \<open>
  The file binds a native \<open>TrayIcon\<close> to a scripted object. The model keeps the
  binding's two members (\<open>tray_icon_\<close> and \<open>menu_\<close>, here without the trailing
  underscore) as a record that every method takes and returns, and writes everything a
  method does to the outside into a trace: the
  calls on \<open>TrayIcon\<close>, the errors thrown into the scripting engine and the events
  emitted. The preprocessor branches (\<open>OS_WIN\<close>, \<open>OS_MACOSX\<close>) are a parameter.
\<close>

subsection \<open>Host types\<close>

datatype platform = OS_WIN | OS_MACOSX | OS_OTHER

type_synonym string16 = "16 word list"
type_synonym UUID = "128 word"
type_synonym c_int = "32 word"

datatype Point = Point c_int c_int
datatype Rect = Rect c_int c_int c_int c_int

text \<open>\<open>gfx::Rect()\<close> and \<open>gfx::Point()\<close>, the default-constructed values.\<close>

definition Rect_default :: Rect where
  "Rect_default = Rect 0 0 0 0"

definition Point_default :: Point where
  "Point_default = Point 0 0"

datatype NativeImage = NativeImage nat
datatype MenuModel = MenuModel nat

text \<open>
  What the binding hands to \<open>TrayIcon\<close> as an image: under \<open>OS_WIN\<close> the
  \<open>HICON\<close> that \<open>image->GetHICON(GetSystemMetrics(m))\<close> yields, elsewhere
  \<open>image->image()\<close>.
\<close>

datatype system_metric = SM_CXSMICON | SM_CXICON

datatype icon_image = GetHICON NativeImage system_metric | Image NativeImage

text \<open>
  A \<open>gin::Handle<Menu>\<close>: the scripted value it wraps (\<open>ToV8\<close>) and the model of
  the wrapped menu (\<open>menu->model()\<close>). An empty handle is \<open>None\<close>.
\<close>

datatype 'v MenuHandle = MenuHandle (ToV8: 'v) (model: MenuModel)

text \<open>
  The converters of the scripting engine that the file calls but does not define, taken
  as parameters over an arbitrary type \<open>'v\<close> of scripted values. A converter returns
  \<open>None\<close> where \<open>ConvertFromV8\<close> returns false and leaves its output alone.
\<close>

record 'v converters =
  to_string :: "'v \<Rightarrow> string option"
  to_string16 :: "'v \<Rightarrow> string16 option"
  to_bool :: "'v \<Rightarrow> bool option"
  to_image :: "'v \<Rightarrow> NativeImage option"
  to_menu :: "'v \<Rightarrow> 'v MenuHandle option"
  to_point :: "'v \<Rightarrow> Point option"
  IsNull :: "'v \<Rightarrow> bool"

subsection \<open>\<open>gin::Converter<TrayIcon::IconType>::FromV8\<close>\<close>

text \<open>
  \<open>TrayIcon::IconType\<close>; \<open>None_icon\<close> and \<open>Error_icon\<close> are
  \<open>IconType::None\<close> and \<open>IconType::Error\<close>.
\<close>

datatype IconType = None_icon | Info | Warning | Error_icon | Custom

text \<open>
  The result is the returned flag and the contents of \<open>*out\<close> afterwards.
\<close>

definition FromV8 :: "'v converters \<Rightarrow> 'v \<Rightarrow> IconType \<Rightarrow> bool \<times> IconType" where
  "FromV8 cv val out =
     (case to_string cv val of
        Some mode \<Rightarrow>
          if mode = ''none'' then (True, None_icon)
          else if mode = ''info'' then (True, Info)
          else if mode = ''warning'' then (True, Warning)
          else if mode = ''error'' then (True, Error_icon)
          else if mode = ''custom'' then (True, Custom)
          else (False, out)
      | None \<Rightarrow> (False, out))"

text \<open>The same converter in the shape of the others: \<open>None\<close> for false.\<close>

definition to_icon_type :: "'v converters \<Rightarrow> 'v \<Rightarrow> IconType option" where
  "to_icon_type cv val =
     (case FromV8 cv val Custom of (True, t) \<Rightarrow> Some t | (False, _) \<Rightarrow> None)"

subsection \<open>The native icon and the trace\<close>

text \<open>
  \<open>TrayIcon::BalloonOptions\<close>. Its field \<open>icon\<close> is \<open>None\<close> for the null
  \<open>HICON\<close> and the empty \<open>gfx::Image\<close>.
\<close>

record BalloonOptions =
  icon_type :: IconType
  icon :: "icon_image option"
  title :: string16
  content :: string16
  large_icon :: bool
  no_sound :: bool
  respect_quiet_time :: bool

text \<open>The object that \<open>TrayIcon::Create(guid)\<close> returns.\<close>

datatype TrayIcon = TrayIcon (guid: "UUID option")

datatype TrayIcon_call =
    TrayIcon_Create "UUID option"
  | TrayIcon_AddObserver
  | TrayIcon_SetImage icon_image
  | TrayIcon_SetPressedImage icon_image
  | TrayIcon_SetToolTip string
  | TrayIcon_SetTitle string
  | TrayIcon_GetTitle
  | TrayIcon_SetIgnoreDoubleClickEvents bool
  | TrayIcon_GetIgnoreDoubleClickEvents
  | TrayIcon_DisplayBalloon BalloonOptions
  | TrayIcon_RemoveBalloon
  | TrayIcon_Focus
  | TrayIcon_PopUpContextMenu Point "MenuModel option"
  | TrayIcon_CloseContextMenu
  | TrayIcon_SetContextMenu "MenuModel option"
  | TrayIcon_GetBounds

text \<open>
  The event object that \<open>CreateEventFromFlags(modifiers)\<close> builds, and the values
  passed on to \<open>Emit\<close> and \<open>EmitCustomEvent\<close>.
\<close>

datatype UIEvent = CreateEventFromFlags c_int

datatype emit_arg =
    Arg_Rect Rect
  | Arg_Point Point
  | Arg_string string
  | Arg_strings "string list"

datatype effect =
    Call TrayIcon_call
  | ThrowError string
  | ThrowTypeError string
  | Emit string "emit_arg list"
  | EmitCustomEvent string UIEvent "emit_arg list"

text \<open>What the native getters answer; the binding passes the answers on.\<close>

record TrayIcon_replies =
  GetTitle_reply :: string
  GetIgnoreDoubleClickEvents_reply :: bool
  GetBounds_reply :: Rect

subsection \<open>Dictionaries and argument lists of the scripting engine\<close>

text \<open>
  Modelled from the spec: \<open>gin_helper::Dictionary::Get(key, &out)\<close>, part of the
  argument marshaling that the binding consumes and does not define. It answers true,
  with \<open>out\<close> written, when the dictionary has the key and its value converts; a
  dictionary is the map from its keys to their values.
\<close>

type_synonym 'v Dictionary = "string \<rightharpoonup> 'v"

definition Get :: "('v \<Rightarrow> 'a option) \<Rightarrow> 'v Dictionary \<Rightarrow> string \<Rightarrow> 'a option" where
  "Get conv options key = (case options key of None \<Rightarrow> None | Some val \<Rightarrow> conv val)"

text \<open>
  Modelled from the spec: \<open>gin::Arguments::GetNext(&out)\<close>, part of the same
  marshaling. It answers false when no argument is left; otherwise the next argument is
  consumed, converted or not. The result is the converted value and the arguments that
  remain.
\<close>

definition GetNext :: "('v \<Rightarrow> 'a option) \<Rightarrow> 'v list \<Rightarrow> 'a option \<times> 'v list" where
  "GetNext conv args = (case args of [] \<Rightarrow> (None, []) | val # rest \<Rightarrow> (conv val, rest))"

subsection \<open>The binding\<close>

record 'v Tray =
  tray_icon :: "TrayIcon option"
  menu :: "'v option"

definition CheckDestroyed :: "'v Tray \<Rightarrow> bool \<times> effect list" where
  "CheckDestroyed t =
     (if tray_icon t = None then (False, [ThrowError ''Tray is destroyed''])
      else (True, []))"

definition Destroy :: "'v Tray \<Rightarrow> unit \<times> 'v Tray \<times> effect list" where
  "Destroy t = ((), t\<lparr>menu := None, tray_icon := None\<rparr>, [])"

definition IsDestroyed :: "'v Tray \<Rightarrow> bool \<times> 'v Tray \<times> effect list" where
  "IsDestroyed t = (tray_icon t = None, t, [])"

definition SetImage :: "platform \<Rightarrow> NativeImage \<Rightarrow> 'v Tray \<Rightarrow> unit \<times> 'v Tray \<times> effect list" where
  "SetImage os img t =
     (case CheckDestroyed t of
        (False, es) \<Rightarrow> ((), t, es)
      | (True, es) \<Rightarrow>
          ((), t, es @ [Call (TrayIcon_SetImage
             (if os = OS_WIN then GetHICON img SM_CXSMICON else Image img))]))"

definition SetPressedImage :: "platform \<Rightarrow> NativeImage \<Rightarrow> 'v Tray \<Rightarrow> unit \<times> 'v Tray \<times> effect list" where
  "SetPressedImage os img t =
     (case CheckDestroyed t of
        (False, es) \<Rightarrow> ((), t, es)
      | (True, es) \<Rightarrow>
          ((), t, es @ [Call (TrayIcon_SetPressedImage
             (if os = OS_WIN then GetHICON img SM_CXSMICON else Image img))]))"

definition SetToolTip :: "string \<Rightarrow> 'v Tray \<Rightarrow> unit \<times> 'v Tray \<times> effect list" where
  "SetToolTip tool_tip t =
     (case CheckDestroyed t of
        (False, es) \<Rightarrow> ((), t, es)
      | (True, es) \<Rightarrow> ((), t, es @ [Call (TrayIcon_SetToolTip tool_tip)]))"

definition SetTitle :: "platform \<Rightarrow> string \<Rightarrow> 'v Tray \<Rightarrow> unit \<times> 'v Tray \<times> effect list" where
  "SetTitle os ttl t =
     (case CheckDestroyed t of
        (False, es) \<Rightarrow> ((), t, es)
      | (True, es) \<Rightarrow>
          ((), t, es @ (if os = OS_MACOSX then [Call (TrayIcon_SetTitle ttl)] else [])))"

definition GetTitle :: "platform \<Rightarrow> TrayIcon_replies \<Rightarrow> 'v Tray \<Rightarrow> string \<times> 'v Tray \<times> effect list" where
  "GetTitle os rep t =
     (case CheckDestroyed t of
        (False, es) \<Rightarrow> ('''', t, es)
      | (True, es) \<Rightarrow>
          (if os = OS_MACOSX then (GetTitle_reply rep, t, es @ [Call TrayIcon_GetTitle])
           else ('''', t, es)))"

definition SetIgnoreDoubleClickEvents :: "platform \<Rightarrow> bool \<Rightarrow> 'v Tray \<Rightarrow> unit \<times> 'v Tray \<times> effect list" where
  "SetIgnoreDoubleClickEvents os ignore t =
     (case CheckDestroyed t of
        (False, es) \<Rightarrow> ((), t, es)
      | (True, es) \<Rightarrow>
          ((), t, es @ (if os = OS_MACOSX
                        then [Call (TrayIcon_SetIgnoreDoubleClickEvents ignore)] else [])))"

definition GetIgnoreDoubleClickEvents :: "platform \<Rightarrow> TrayIcon_replies \<Rightarrow> 'v Tray \<Rightarrow> bool \<times> 'v Tray \<times> effect list" where
  "GetIgnoreDoubleClickEvents os rep t =
     (case CheckDestroyed t of
        (False, es) \<Rightarrow> (False, t, es)
      | (True, es) \<Rightarrow>
          (if os = OS_MACOSX
           then (GetIgnoreDoubleClickEvents_reply rep, t,
                 es @ [Call TrayIcon_GetIgnoreDoubleClickEvents])
           else (False, t, es)))"

definition DisplayBalloon ::
  "platform \<Rightarrow> 'v converters \<Rightarrow> BalloonOptions \<Rightarrow> 'v Dictionary \<Rightarrow> 'v Tray
     \<Rightarrow> unit \<times> 'v Tray \<times> effect list" where
  \<comment> \<open>\<open>balloon_options\<close> starts as the default-constructed \<open>BalloonOptions\<close>,
      which the header of \<open>TrayIcon\<close> fixes: the parameter \<open>b0\<close>.\<close>
  "DisplayBalloon os cv b0 options t =
     (case CheckDestroyed t of
        (False, es) \<Rightarrow> ((), t, es)
      | (True, es) \<Rightarrow>
          (case Get (to_string16 cv) options ''title'' of
             None \<Rightarrow> ((), t, es @ [ThrowError '''title' and 'content' must be defined''])
           | Some ttl \<Rightarrow>
               (case Get (to_string16 cv) options ''content'' of
                  None \<Rightarrow>
                    ((), t, es @ [ThrowError '''title' and 'content' must be defined''])
                | Some cnt \<Rightarrow>
                    (let b1 = b0\<lparr>title := ttl, content := cnt\<rparr>;
                         icn = Get (to_image cv) options ''icon'';
                         b2 = (case Get (to_icon_type cv) options ''iconType'' of
                                 Some x \<Rightarrow> b1\<lparr>icon_type := x\<rparr> | None \<Rightarrow> b1);
                         b3 = (case Get (to_bool cv) options ''largeIcon'' of
                                 Some x \<Rightarrow> b2\<lparr>large_icon := x\<rparr> | None \<Rightarrow> b2);
                         b4 = (case Get (to_bool cv) options ''noSound'' of
                                 Some x \<Rightarrow> b3\<lparr>no_sound := x\<rparr> | None \<Rightarrow> b3);
                         b5 = (case Get (to_bool cv) options ''respectQuietTime'' of
                                 Some x \<Rightarrow> b4\<lparr>respect_quiet_time := x\<rparr> | None \<Rightarrow> b4);
                         b6 = (case icn of
                                 None \<Rightarrow> b5
                               | Some img \<Rightarrow>
                                   b5\<lparr>icon := Some
                                     (if os = OS_WIN
                                      then GetHICON img
                                             (if large_icon b5 then SM_CXICON else SM_CXSMICON)
                                      else Image img)\<rparr>)
                     in ((), t, es @ [Call (TrayIcon_DisplayBalloon b6)])))))"

definition RemoveBalloon :: "'v Tray \<Rightarrow> unit \<times> 'v Tray \<times> effect list" where
  "RemoveBalloon t =
     (case CheckDestroyed t of
        (False, es) \<Rightarrow> ((), t, es)
      | (True, es) \<Rightarrow> ((), t, es @ [Call TrayIcon_RemoveBalloon]))"

definition Focus :: "'v Tray \<Rightarrow> unit \<times> 'v Tray \<times> effect list" where
  "Focus t =
     (case CheckDestroyed t of
        (False, es) \<Rightarrow> ((), t, es)
      | (True, es) \<Rightarrow> ((), t, es @ [Call TrayIcon_Focus]))"

definition PopUpContextMenu ::
  "'v converters \<Rightarrow> 'v list \<Rightarrow> 'v Tray \<Rightarrow> unit \<times> 'v Tray \<times> effect list" where
  "PopUpContextMenu cv args t =
     (case CheckDestroyed t of
        (False, es) \<Rightarrow> ((), t, es)
      | (True, es) \<Rightarrow>
          (case GetNext (to_menu cv) args of
             (m, args1) \<Rightarrow>
               (case GetNext (to_point cv) args1 of
                  (p, args2) \<Rightarrow>
                    ((), t, es @ [Call (TrayIcon_PopUpContextMenu
                       (case p of None \<Rightarrow> Point_default | Some pos \<Rightarrow> pos)
                       (case m of None \<Rightarrow> None | Some h \<Rightarrow> Some (model h)))]))))"

definition CloseContextMenu :: "'v Tray \<Rightarrow> unit \<times> 'v Tray \<times> effect list" where
  "CloseContextMenu t =
     (case CheckDestroyed t of
        (False, es) \<Rightarrow> ((), t, es)
      | (True, es) \<Rightarrow> ((), t, es @ [Call TrayIcon_CloseContextMenu]))"

definition SetContextMenu ::
  "'v converters \<Rightarrow> 'v \<Rightarrow> 'v Tray \<Rightarrow> unit \<times> 'v Tray \<times> effect list" where
  "SetContextMenu cv arg t =
     (case CheckDestroyed t of
        (False, es) \<Rightarrow> ((), t, es)
      | (True, es) \<Rightarrow>
          if IsNull cv arg
          then ((), t\<lparr>menu := None\<rparr>, es @ [Call (TrayIcon_SetContextMenu None)])
          else (case to_menu cv arg of
                  Some h \<Rightarrow>
                    ((), t\<lparr>menu := Some (ToV8 h)\<rparr>,
                     es @ [Call (TrayIcon_SetContextMenu (Some (model h)))])
                | None \<Rightarrow> ((), t, es @ [ThrowTypeError ''Must pass Menu or null''])))"

definition GetBounds :: "TrayIcon_replies \<Rightarrow> 'v Tray \<Rightarrow> Rect \<times> 'v Tray \<times> effect list" where
  "GetBounds rep t =
     (case CheckDestroyed t of
        (False, es) \<Rightarrow> (Rect_default, t, es)
      | (True, es) \<Rightarrow> (GetBounds_reply rep, t, es @ [Call TrayIcon_GetBounds]))"

subsection \<open>Construction\<close>

text \<open>
  The constructor: the member initialiser \<open>tray_icon_(TrayIcon::Create(guid))\<close>, then
  the body. \<open>menu_\<close> starts empty.
\<close>

definition Tray_ctor :: "platform \<Rightarrow> NativeImage \<Rightarrow> UUID option \<Rightarrow> 'v Tray \<times> effect list" where
  "Tray_ctor os img g =
     (let t0 = \<lparr>tray_icon = Some (TrayIcon g), menu = None\<rparr>
      in case SetImage os img t0 of
           (_, t1, es) \<Rightarrow>
             (t1, [Call (TrayIcon_Create g)] @ es @ [Call TrayIcon_AddObserver]))"

text \<open>
  \<open>Tray::New\<close>. \<open>is_ready\<close> is what \<open>Browser::Get()->is_ready()\<close> answers,
  \<open>args\<close> the arguments of the scripted call. An empty handle is \<open>None\<close>.
\<close>

definition New ::
  "platform \<Rightarrow> bool \<Rightarrow> NativeImage \<Rightarrow> UUID option \<Rightarrow> 'v list
     \<Rightarrow> 'v Tray option \<times> effect list" where
  "New os is_ready img g args =
     (if \<not> is_ready
      then (None, [ThrowError ''Cannot create Tray before app is ready''])
      else if os = OS_WIN \<and> g = None \<and> 1 < length args
      then (None, [ThrowError ''Invalid GUID format''])
      else (case Tray_ctor os img g of (t, es) \<Rightarrow> (Some t, es)))"

subsection \<open>The observer callbacks\<close>

definition OnClicked :: "Rect \<Rightarrow> Point \<Rightarrow> c_int \<Rightarrow> effect list" where
  "OnClicked bounds location modifiers =
     [EmitCustomEvent ''click'' (CreateEventFromFlags modifiers)
        [Arg_Rect bounds, Arg_Point location]]"

definition OnDoubleClicked :: "Rect \<Rightarrow> c_int \<Rightarrow> effect list" where
  "OnDoubleClicked bounds modifiers =
     [EmitCustomEvent ''double-click'' (CreateEventFromFlags modifiers) [Arg_Rect bounds]]"

definition OnRightClicked :: "Rect \<Rightarrow> c_int \<Rightarrow> effect list" where
  "OnRightClicked bounds modifiers =
     [EmitCustomEvent ''right-click'' (CreateEventFromFlags modifiers) [Arg_Rect bounds]]"

definition OnBalloonShow :: "effect list" where
  "OnBalloonShow = [Emit ''balloon-show'' []]"

definition OnBalloonClicked :: "effect list" where
  "OnBalloonClicked = [Emit ''balloon-click'' []]"

definition OnBalloonClosed :: "effect list" where
  "OnBalloonClosed = [Emit ''balloon-closed'' []]"

definition OnDrop :: "effect list" where
  "OnDrop = [Emit ''drop'' []]"

definition OnDropFiles :: "string list \<Rightarrow> effect list" where
  "OnDropFiles files = [Emit ''drop-files'' [Arg_strings files]]"

definition OnDropText :: "string \<Rightarrow> effect list" where
  "OnDropText txt = [Emit ''drop-text'' [Arg_string txt]]"

definition OnMouseEntered :: "Point \<Rightarrow> c_int \<Rightarrow> effect list" where
  "OnMouseEntered location modifiers =
     [EmitCustomEvent ''mouse-enter'' (CreateEventFromFlags modifiers) [Arg_Point location]]"

definition OnMouseExited :: "Point \<Rightarrow> c_int \<Rightarrow> effect list" where
  "OnMouseExited location modifiers =
     [EmitCustomEvent ''mouse-leave'' (CreateEventFromFlags modifiers) [Arg_Point location]]"

definition OnMouseMoved :: "Point \<Rightarrow> c_int \<Rightarrow> effect list" where
  "OnMouseMoved location modifiers =
     [EmitCustomEvent ''mouse-move'' (CreateEventFromFlags modifiers) [Arg_Point location]]"

definition OnMouseUp :: "Point \<Rightarrow> c_int \<Rightarrow> effect list" where
  "OnMouseUp location modifiers =
     [EmitCustomEvent ''mouse-up'' (CreateEventFromFlags modifiers) [Arg_Point location]]"

definition OnMouseDown :: "Point \<Rightarrow> c_int \<Rightarrow> effect list" where
  "OnMouseDown location modifiers =
     [EmitCustomEvent ''mouse-down'' (CreateEventFromFlags modifiers) [Arg_Point location]]"

definition OnDragEntered :: "effect list" where
  "OnDragEntered = [Emit ''drag-enter'' []]"

definition OnDragExited :: "effect list" where
  "OnDragExited = [Emit ''drag-leave'' []]"

definition OnDragEnded :: "effect list" where
  "OnDragEnded = [Emit ''drag-end'' []]"

subsection \<open>Dispatch\<close>

text \<open>
  The virtual calls of \<open>TrayIconObserver\<close> that the binding overrides, as data, and
  the dispatch to the override.
\<close>

datatype TrayIconObserver =
    Clicked Rect Point c_int
  | DoubleClicked Rect c_int
  | RightClicked Rect c_int
  | BalloonShow
  | BalloonClicked
  | BalloonClosed
  | Drop
  | DropFiles "string list"
  | DropText string
  | MouseEntered Point c_int
  | MouseExited Point c_int
  | MouseMoved Point c_int
  | MouseUp Point c_int
  | MouseDown Point c_int
  | DragEntered
  | DragExited
  | DragEnded

fun notify :: "TrayIconObserver \<Rightarrow> effect list" where
  "notify (Clicked bounds location modifiers) = OnClicked bounds location modifiers"
| "notify (DoubleClicked bounds modifiers) = OnDoubleClicked bounds modifiers"
| "notify (RightClicked bounds modifiers) = OnRightClicked bounds modifiers"
| "notify BalloonShow = OnBalloonShow"
| "notify BalloonClicked = OnBalloonClicked"
| "notify BalloonClosed = OnBalloonClosed"
| "notify Drop = OnDrop"
| "notify (DropFiles files) = OnDropFiles files"
| "notify (DropText txt) = OnDropText txt"
| "notify (MouseEntered location modifiers) = OnMouseEntered location modifiers"
| "notify (MouseExited location modifiers) = OnMouseExited location modifiers"
| "notify (MouseMoved location modifiers) = OnMouseMoved location modifiers"
| "notify (MouseUp location modifiers) = OnMouseUp location modifiers"
| "notify (MouseDown location modifiers) = OnMouseDown location modifiers"
| "notify DragEntered = OnDragEntered"
| "notify DragExited = OnDragExited"
| "notify DragEnded = OnDragEnded"

text \<open>
  The method table of \<open>GetObjectTemplateBuilder\<close>: a scripted call, named as the
  table names it, with its arguments as the engine has converted them.
\<close>

datatype 'v tray_call =
    destroy
  | isDestroyed
  | setImage NativeImage
  | setPressedImage NativeImage
  | setToolTip string
  | setTitle string
  | getTitle
  | setIgnoreDoubleClickEvents bool
  | getIgnoreDoubleClickEvents
  | displayBalloon "'v Dictionary"
  | removeBalloon
  | focus
  | popUpContextMenu "'v list"
  | closeContextMenu
  | setContextMenu 'v
  | getBounds

datatype ret = Void | Ret_bool bool | Ret_string string | Ret_Rect Rect

record 'v host =
  h_os :: platform
  h_cv :: "'v converters"
  h_balloon :: BalloonOptions
  h_replies :: TrayIcon_replies

fun invoke :: "'v host \<Rightarrow> 'v tray_call \<Rightarrow> 'v Tray \<Rightarrow> ret \<times> 'v Tray \<times> effect list" where
  "invoke h destroy t = apfst (\<lambda>_. Void) (Destroy t)"
| "invoke h isDestroyed t = apfst Ret_bool (IsDestroyed t)"
| "invoke h (setImage img) t = apfst (\<lambda>_. Void) (SetImage (h_os h) img t)"
| "invoke h (setPressedImage img) t = apfst (\<lambda>_. Void) (SetPressedImage (h_os h) img t)"
| "invoke h (setToolTip tool_tip) t = apfst (\<lambda>_. Void) (SetToolTip tool_tip t)"
| "invoke h (setTitle ttl) t = apfst (\<lambda>_. Void) (SetTitle (h_os h) ttl t)"
| "invoke h getTitle t = apfst Ret_string (GetTitle (h_os h) (h_replies h) t)"
| "invoke h (setIgnoreDoubleClickEvents ignore) t =
     apfst (\<lambda>_. Void) (SetIgnoreDoubleClickEvents (h_os h) ignore t)"
| "invoke h getIgnoreDoubleClickEvents t =
     apfst Ret_bool (GetIgnoreDoubleClickEvents (h_os h) (h_replies h) t)"
| "invoke h (displayBalloon options) t =
     apfst (\<lambda>_. Void) (DisplayBalloon (h_os h) (h_cv h) (h_balloon h) options t)"
| "invoke h removeBalloon t = apfst (\<lambda>_. Void) (RemoveBalloon t)"
| "invoke h focus t = apfst (\<lambda>_. Void) (Focus t)"
| "invoke h (popUpContextMenu args) t = apfst (\<lambda>_. Void) (PopUpContextMenu (h_cv h) args t)"
| "invoke h closeContextMenu t = apfst (\<lambda>_. Void) (CloseContextMenu t)"
| "invoke h (setContextMenu arg) t = apfst (\<lambda>_. Void) (SetContextMenu (h_cv h) arg t)"
| "invoke h getBounds t = apfst Ret_Rect (GetBounds (h_replies h) t)"

text \<open>
  A script that makes one call after the other, going on after a thrown error as a
  script that catches it does. The result is the binding's state and the whole trace.
\<close>

fun run :: "'v host \<Rightarrow> 'v tray_call list \<Rightarrow> 'v Tray \<Rightarrow> 'v Tray \<times> effect list" where
  "run h [] t = (t, [])"
| "run h (c # cs) t =
     (case invoke h c t of
        (_, t1, es1) \<Rightarrow> (case run h cs t1 of (t2, es2) \<Rightarrow> (t2, es1 @ es2)))"

subsection \<open>Event names\<close>

text \<open>The name under which an effect emits.\<close>

fun emitted_name :: "effect \<Rightarrow> string option" where
  "emitted_name (Emit name _) = Some name"
| "emitted_name (EmitCustomEvent name _ _) = Some name"
| "emitted_name _ = None"

text \<open>
  The four kinds of event that the observer interface is said to deliver, and the kind
  of an event by its name. A drop is the end of a drag-and-drop on the icon, so the drop
  events are drag events. A name that the list does not have is of no kind.
\<close>

datatype event_category = Click_event | Drag_event | Mouse_event | Balloon_event

definition category_of_name :: "string \<Rightarrow> event_category option" where
  "category_of_name name =
     (if name \<in> set [''click'', ''double-click'', ''right-click''] then Some Click_event
      else if name \<in> set [''drag-enter'', ''drag-leave'', ''drag-end'',
                           ''drop'', ''drop-files'', ''drop-text''] then Some Drag_event
      else if name \<in> set [''mouse-enter'', ''mouse-leave'', ''mouse-move'',
                           ''mouse-up'', ''mouse-down''] then Some Mouse_event
      else if name \<in> set [''balloon-show'', ''balloon-click'', ''balloon-closed'']
      then Some Balloon_event
      else None)"

definition emitted_categories :: "effect list \<Rightarrow> event_category option list" where
  "emitted_categories es = map (\<lambda>e. Option.bind (emitted_name e) category_of_name) es"

subsection \<open>A concrete engine\<close>

text \<open>
  Scripted values and converters to run the binding on: strings convert to strings,
  everything converts to a boolean, wrapped menus and images to their handles, and
  a point object to a point.
\<close>

datatype v8_value =
    V8_null
  | V8_undefined
  | V8_bool bool
  | V8_string string
  | V8_number int
  | V8_menu nat
  | V8_image nat
  | V8_point c_int c_int

definition example_converters :: "v8_value converters" where
  "example_converters =
     \<lparr>to_string = (\<lambda>v. case v of V8_string s \<Rightarrow> Some s | _ \<Rightarrow> None),
      to_string16 = (\<lambda>v. case v of V8_string s \<Rightarrow> Some (map of_char s) | _ \<Rightarrow> None),
      to_bool = (\<lambda>v. case v of
                   V8_bool b \<Rightarrow> Some b
                 | V8_null \<Rightarrow> Some False
                 | V8_undefined \<Rightarrow> Some False
                 | V8_string s \<Rightarrow> Some (s \<noteq> [])
                 | V8_number n \<Rightarrow> Some (n \<noteq> 0)
                 | _ \<Rightarrow> Some True),
      to_image = (\<lambda>v. case v of V8_image n \<Rightarrow> Some (NativeImage n) | _ \<Rightarrow> None),
      to_menu = (\<lambda>v. case v of
                   V8_menu n \<Rightarrow> Some (MenuHandle (V8_menu n) (MenuModel n))
                 | _ \<Rightarrow> None),
      to_point = (\<lambda>v. case v of V8_point x y \<Rightarrow> Some (Point x y) | _ \<Rightarrow> None),
      IsNull = (\<lambda>v. v = V8_null)\<rparr>"

definition example_balloon :: BalloonOptions where
  "example_balloon =
     \<lparr>icon_type = Custom, icon = None, title = [], content = [],
      large_icon = True, no_sound = False, respect_quiet_time = False\<rparr>"

definition example_host :: "platform \<Rightarrow> v8_value host" where
  "example_host p =
     \<lparr>h_os = p, h_cv = example_converters, h_balloon = example_balloon,
      h_replies = \<lparr>GetTitle_reply = ''T'', GetIgnoreDoubleClickEvents_reply = True,
                 GetBounds_reply = Rect 1 2 3 4\<rparr>\<rparr>"

definition example_tray :: "platform \<Rightarrow> v8_value Tray" where
  "example_tray p = fst (Tray_ctor p (NativeImage 7) None)"

section \<open>Properties\<close>

subsection \<open>The destroyed check\<close>

lemma CheckDestroyed_alive: "tray_icon t \<noteq> None \<Longrightarrow> CheckDestroyed t = (True, [])"
  by (simp add: CheckDestroyed_def)

lemma CheckDestroyed_dead:
  "tray_icon t = None \<Longrightarrow> CheckDestroyed t = (False, [ThrowError ''Tray is destroyed''])"
  by (simp add: CheckDestroyed_def)

lemma example_tray_eq:
  "example_tray p = \<lparr>tray_icon = Some (TrayIcon None), menu = None\<rparr>"
  by (simp add: example_tray_def Tray_ctor_def SetImage_def CheckDestroyed_def)

lemma example_tray_alive: "tray_icon (example_tray p) \<noteq> None"
  by (simp add: example_tray_eq)

subsection \<open>Commands on a live tray\<close>

text \<open>
  C1, as the code has it. On a tray that is not destroyed each of setImage,
  setPressedImage, setToolTip, removeBalloon, focus, popUpContextMenu, closeContextMenu
  and getBounds makes exactly one call on \<open>TrayIcon\<close>, the operation of the same
  name, and leaves the binding's state alone. The arguments are the caller's: the tool
  tip as it is; the image as the platform's icon of it (the small-icon \<open>HICON\<close> under
  \<open>OS_WIN\<close>, the image itself elsewhere); for popUpContextMenu the position read
  from the second argument, or the default point, and the model of the menu read from
  the first, or null. getBounds returns what the icon answers. setTitle makes the one
  call \<open>SetTitle\<close> under \<open>OS_MACOSX\<close> only; on every other platform it makes
  no call on \<open>TrayIcon\<close> at all.
\<close>

theorem commands_forward:
  "tray_icon t \<noteq> None \<Longrightarrow>
     SetImage p img t =
       ((), t, [Call (TrayIcon_SetImage
          (if p = OS_WIN then GetHICON img SM_CXSMICON else Image img))])
   \<and> SetPressedImage p img t =
       ((), t, [Call (TrayIcon_SetPressedImage
          (if p = OS_WIN then GetHICON img SM_CXSMICON else Image img))])
   \<and> SetToolTip tip t = ((), t, [Call (TrayIcon_SetToolTip tip)])
   \<and> SetTitle p s t = ((), t, if p = OS_MACOSX then [Call (TrayIcon_SetTitle s)] else [])
   \<and> RemoveBalloon t = ((), t, [Call TrayIcon_RemoveBalloon])
   \<and> Focus t = ((), t, [Call TrayIcon_Focus])
   \<and> PopUpContextMenu c args t =
       ((), t, [Call (TrayIcon_PopUpContextMenu
          (case fst (GetNext (to_point c) (snd (GetNext (to_menu c) args))) of
             None \<Rightarrow> Point_default | Some pos \<Rightarrow> pos)
          (map_option model (fst (GetNext (to_menu c) args))))])
   \<and> CloseContextMenu t = ((), t, [Call TrayIcon_CloseContextMenu])
   \<and> GetBounds r t = (GetBounds_reply r, t, [Call TrayIcon_GetBounds])"
  by (simp add: CheckDestroyed_alive SetImage_def SetPressedImage_def SetToolTip_def
        SetTitle_def RemoveBalloon_def Focus_def PopUpContextMenu_def CloseContextMenu_def
        GetBounds_def split: prod.splits option.splits)

theorem commands_forward_witness:
  "SetTitle OS_MACOSX ''hi'' (example_tray OS_MACOSX) =
     ((), example_tray OS_MACOSX, [Call (TrayIcon_SetTitle ''hi'')])
   \<and> SetImage OS_WIN (NativeImage 3) (example_tray OS_WIN) =
     ((), example_tray OS_WIN, [Call (TrayIcon_SetImage (GetHICON (NativeImage 3) SM_CXSMICON))])
   \<and> PopUpContextMenu example_converters [V8_menu 5, V8_point 10 20] (example_tray OS_OTHER) =
     ((), example_tray OS_OTHER,
      [Call (TrayIcon_PopUpContextMenu (Point 10 20) (Some (MenuModel 5)))])"
  using commands_forward [where t = "example_tray OS_MACOSX" and p = OS_MACOSX and s = "''hi''"]
    commands_forward [where t = "example_tray OS_WIN" and p = OS_WIN and img = "NativeImage 3"]
    commands_forward [where t = "example_tray OS_OTHER" and c = example_converters
      and args = "[V8_menu 5, V8_point 10 20]"]
    example_tray_alive
  by (simp add: example_converters_def GetNext_def)

text \<open>
  C1 as stated fails for setTitle: off \<open>OS_MACOSX\<close> the call is not forwarded. A
  freshly constructed tray on another platform is not destroyed, and setTitle on it
  leaves the trace empty.
\<close>

theorem setTitle_not_forwarded_counterexample:
  "tray_icon (example_tray OS_OTHER) \<noteq> None
   \<and> snd (snd (SetTitle OS_OTHER ''hi'' (example_tray OS_OTHER))) = []
   \<and> snd (snd (SetTitle OS_OTHER ''hi'' (example_tray OS_OTHER)))
       \<noteq> [Call (TrayIcon_SetTitle ''hi'')]
   \<and> snd (snd (SetTitle OS_WIN ''hi'' (example_tray OS_WIN))) = []"
  by (simp add: example_tray_eq SetTitle_def CheckDestroyed_def)

subsection \<open>Events\<close>

text \<open>
  C2. Every observer callback emits exactly one event and does nothing else. The
  name is fixed by the callback and the payload is the callback's own: the three click
  callbacks and the five mouse callbacks emit a custom event that carries the event
  object built from the modifier flags, followed by the bounds and the location (click),
  the bounds (double-click, right-click) or the location (mouse events); drop-files
  carries the file list, drop-text the text; the balloon, drop and drag callbacks
  carry nothing.
\<close>

theorem notify_emits_once:
  "notify (Clicked b l m) =
     [EmitCustomEvent ''click'' (CreateEventFromFlags m) [Arg_Rect b, Arg_Point l]]
   \<and> notify (DoubleClicked b m) =
     [EmitCustomEvent ''double-click'' (CreateEventFromFlags m) [Arg_Rect b]]
   \<and> notify (RightClicked b m) =
     [EmitCustomEvent ''right-click'' (CreateEventFromFlags m) [Arg_Rect b]]
   \<and> notify BalloonShow = [Emit ''balloon-show'' []]
   \<and> notify BalloonClicked = [Emit ''balloon-click'' []]
   \<and> notify BalloonClosed = [Emit ''balloon-closed'' []]
   \<and> notify Drop = [Emit ''drop'' []]
   \<and> notify (DropFiles fs) = [Emit ''drop-files'' [Arg_strings fs]]
   \<and> notify (DropText s) = [Emit ''drop-text'' [Arg_string s]]
   \<and> notify (MouseEntered l m) =
     [EmitCustomEvent ''mouse-enter'' (CreateEventFromFlags m) [Arg_Point l]]
   \<and> notify (MouseExited l m) =
     [EmitCustomEvent ''mouse-leave'' (CreateEventFromFlags m) [Arg_Point l]]
   \<and> notify (MouseMoved l m) =
     [EmitCustomEvent ''mouse-move'' (CreateEventFromFlags m) [Arg_Point l]]
   \<and> notify (MouseUp l m) =
     [EmitCustomEvent ''mouse-up'' (CreateEventFromFlags m) [Arg_Point l]]
   \<and> notify (MouseDown l m) =
     [EmitCustomEvent ''mouse-down'' (CreateEventFromFlags m) [Arg_Point l]]
   \<and> notify DragEntered = [Emit ''drag-enter'' []]
   \<and> notify DragExited = [Emit ''drag-leave'' []]
   \<and> notify DragEnded = [Emit ''drag-end'' []]
   \<and> length (notify cb) = 1
   \<and> length (filter (\<lambda>e. emitted_name e \<noteq> None) (notify cb)) = 1"
  by (cases cb)
     (simp_all add: OnClicked_def OnDoubleClicked_def OnRightClicked_def OnBalloonShow_def
        OnBalloonClicked_def OnBalloonClosed_def OnDrop_def OnDropFiles_def OnDropText_def
        OnMouseEntered_def OnMouseExited_def OnMouseMoved_def OnMouseUp_def OnMouseDown_def
        OnDragEntered_def OnDragExited_def OnDragEnded_def)

subsection \<open>The icon type converter\<close>

text \<open>
  C10. The conversion to \<open>IconType\<close> succeeds exactly when the value converts to
  one of the five strings none, info, warning, error, custom, and then yields the icon
  type of that name; in every other case it returns false and leaves the output as it
  was.
\<close>

theorem FromV8_five_strings:
  "(fst (FromV8 c val out) \<longleftrightarrow>
      to_string c val \<in>
        {Some ''none'', Some ''info'', Some ''warning'', Some ''error'', Some ''custom''})
   \<and> (to_string c val = Some ''none'' \<longrightarrow> FromV8 c val out = (True, None_icon))
   \<and> (to_string c val = Some ''info'' \<longrightarrow> FromV8 c val out = (True, Info))
   \<and> (to_string c val = Some ''warning'' \<longrightarrow> FromV8 c val out = (True, Warning))
   \<and> (to_string c val = Some ''error'' \<longrightarrow> FromV8 c val out = (True, Error_icon))
   \<and> (to_string c val = Some ''custom'' \<longrightarrow> FromV8 c val out = (True, Custom))
   \<and> (\<not> fst (FromV8 c val out) \<longrightarrow> FromV8 c val out = (False, out))"
  by (cases "to_string c val") (simp_all add: FromV8_def)

theorem FromV8_five_strings_witness:
  "FromV8 example_converters (V8_string ''warning'') Custom = (True, Warning)
   \<and> FromV8 example_converters (V8_string ''Warning'') Info = (False, Info)
   \<and> FromV8 example_converters (V8_number 3) Info = (False, Info)"
  using FromV8_five_strings [of example_converters "V8_string ''warning''" Custom]
    FromV8_five_strings [of example_converters "V8_string ''Warning''" Info]
    FromV8_five_strings [of example_converters "V8_number 3" Info]
  by (simp add: example_converters_def)

subsection \<open>After destroy\<close>

lemmas tray_method_defs =
  Destroy_def IsDestroyed_def SetImage_def SetPressedImage_def SetToolTip_def SetTitle_def
  GetTitle_def SetIgnoreDoubleClickEvents_def GetIgnoreDoubleClickEvents_def
  DisplayBalloon_def RemoveBalloon_def Focus_def PopUpContextMenu_def CloseContextMenu_def
  SetContextMenu_def GetBounds_def

text \<open>
  C3. On a destroyed tray every scripted call other than destroy and isDestroyed
  throws the one error ``Tray is destroyed'', makes no call on \<open>TrayIcon\<close> and leaves
  the state as it was; getTitle then returns the empty string,
  getIgnoreDoubleClickEvents false and getBounds the empty rectangle, and isDestroyed
  returns true. The state that destroy leaves is destroyed, and destroy on it changes
  nothing and throws nothing.
\<close>

theorem destroyed_tray_throws:
  "tray_icon t = None \<Longrightarrow>
     (c \<noteq> destroy \<and> c \<noteq> isDestroyed \<longrightarrow>
        snd (invoke h c t) = (t, [ThrowError ''Tray is destroyed'']))
   \<and> invoke h getTitle t = (Ret_string '''', t, [ThrowError ''Tray is destroyed''])
   \<and> invoke h getIgnoreDoubleClickEvents t =
       (Ret_bool False, t, [ThrowError ''Tray is destroyed''])
   \<and> invoke h getBounds t = (Ret_Rect Rect_default, t, [ThrowError ''Tray is destroyed''])
   \<and> invoke h isDestroyed t = (Ret_bool True, t, [])
   \<and> tray_icon (fst (snd (invoke h destroy u))) = None
   \<and> invoke h destroy (fst (snd (invoke h destroy u))) =
       (Void, fst (snd (invoke h destroy u)), [])"
  by (cases c) (simp_all add: CheckDestroyed_dead tray_method_defs)

theorem destroyed_tray_throws_witness:
  "snd (invoke (example_host OS_MACOSX) (setTitle ''x'')
          (fst (snd (invoke (example_host OS_MACOSX) destroy (example_tray OS_MACOSX))))) =
     (\<lparr>tray_icon = None, menu = None\<rparr>, [ThrowError ''Tray is destroyed''])
   \<and> invoke (example_host OS_MACOSX) getTitle \<lparr>tray_icon = None, menu = None\<rparr> =
     (Ret_string '''', \<lparr>tray_icon = None, menu = None\<rparr>, [ThrowError ''Tray is destroyed''])"
  using destroyed_tray_throws [where t = "\<lparr>tray_icon = None, menu = None\<rparr>"
      and c = "setTitle ''x''" and h = "example_host OS_MACOSX"]
  by (simp add: example_tray_eq Destroy_def)

subsection \<open>Balloons\<close>

lemma Get_eq_bind: "Get conv options key = Option.bind (options key) conv"
  by (simp add: Get_def split: option.splits)

text \<open>
  C4. On a tray that is not destroyed, displayBalloon throws ``'title' and 'content'
  must be defined'' and calls nothing exactly when the dictionary has no convertible
  title or no convertible content. Otherwise it makes the one call
  \<open>DisplayBalloon\<close>, with options built from the dictionary: its title and
  content; the icon type that its iconType names, when that converts to one of the
  strings none, info, warning, error and custom, and the default icon type when not;
  its largeIcon, noSound and respectQuietTime where it has convertible ones and the
  defaults where not; and the icon made of its icon if it has one (under \<open>OS_WIN\<close>
  the \<open>HICON\<close> of the large or the small size, as largeIcon says). Every field is
  read from the dictionary's own entries and the engine's converters.
\<close>

theorem DisplayBalloon_cases:
  "tray_icon t \<noteq> None \<Longrightarrow>
     ((Option.bind (options ''title'') (to_string16 c) = None
        \<or> Option.bind (options ''content'') (to_string16 c) = None) \<longrightarrow>
        DisplayBalloon p c dflt options t =
          ((), t, [ThrowError '''title' and 'content' must be defined'']))
   \<and> (Option.bind (options ''title'') (to_string16 c) = Some ttl
        \<and> Option.bind (options ''content'') (to_string16 c) = Some cnt \<longrightarrow>
        DisplayBalloon p c dflt options t =
          ((), t, [Call (TrayIcon_DisplayBalloon
             \<lparr>icon_type = (case Option.bind (options ''iconType'') (to_string c) of
                             None \<Rightarrow> icon_type dflt
                           | Some mode \<Rightarrow>
                               if mode = ''none'' then None_icon
                               else if mode = ''info'' then Info
                               else if mode = ''warning'' then Warning
                               else if mode = ''error'' then Error_icon
                               else if mode = ''custom'' then Custom
                               else icon_type dflt),
              icon = (case Option.bind (options ''icon'') (to_image c) of
                        None \<Rightarrow> icon dflt
                      | Some img \<Rightarrow> Some
                          (if p = OS_WIN
                           then GetHICON img
                                  (if (case Option.bind (options ''largeIcon'') (to_bool c) of
                                         Some x \<Rightarrow> x | None \<Rightarrow> large_icon dflt)
                                   then SM_CXICON else SM_CXSMICON)
                           else Image img)),
              title = ttl,
              content = cnt,
              large_icon = (case Option.bind (options ''largeIcon'') (to_bool c) of
                              Some x \<Rightarrow> x | None \<Rightarrow> large_icon dflt),
              no_sound = (case Option.bind (options ''noSound'') (to_bool c) of
                            Some x \<Rightarrow> x | None \<Rightarrow> no_sound dflt),
              respect_quiet_time =
                (case Option.bind (options ''respectQuietTime'') (to_bool c) of
                   Some x \<Rightarrow> x | None \<Rightarrow> respect_quiet_time dflt)\<rparr>)]))
   \<and> (ThrowError '''title' and 'content' must be defined''
          \<in> set (snd (snd (DisplayBalloon p c dflt options t)))
        \<longleftrightarrow> Option.bind (options ''title'') (to_string16 c) = None
            \<or> Option.bind (options ''content'') (to_string16 c) = None)"
proof -
  assume alive: "tray_icon t \<noteq> None"
  have icon_type_read:
    "(case Get (to_icon_type c) options ''iconType'' of
        Some x \<Rightarrow> x | None \<Rightarrow> icon_type dflt) =
     (case Option.bind (options ''iconType'') (to_string c) of
        None \<Rightarrow> icon_type dflt
      | Some mode \<Rightarrow>
          if mode = ''none'' then None_icon
          else if mode = ''info'' then Info
          else if mode = ''warning'' then Warning
          else if mode = ''error'' then Error_icon
          else if mode = ''custom'' then Custom
          else icon_type dflt)"
    by (simp add: Get_eq_bind to_icon_type_def FromV8_def split: option.splits Option.bind_splits)
  have built:
    "Option.bind (options ''title'') (to_string16 c) = Some ttl \<Longrightarrow>
     Option.bind (options ''content'') (to_string16 c) = Some cnt \<Longrightarrow>
     DisplayBalloon p c dflt options t =
       ((), t, [Call (TrayIcon_DisplayBalloon
          \<lparr>icon_type = (case Get (to_icon_type c) options ''iconType'' of
                          Some x \<Rightarrow> x | None \<Rightarrow> icon_type dflt),
           icon = (case Option.bind (options ''icon'') (to_image c) of
                     None \<Rightarrow> icon dflt
                   | Some img \<Rightarrow> Some
                       (if p = OS_WIN
                        then GetHICON img
                               (if (case Option.bind (options ''largeIcon'') (to_bool c) of
                                      Some x \<Rightarrow> x | None \<Rightarrow> large_icon dflt)
                                then SM_CXICON else SM_CXSMICON)
                        else Image img)),
           title = ttl,
           content = cnt,
           large_icon = (case Option.bind (options ''largeIcon'') (to_bool c) of
                           Some x \<Rightarrow> x | None \<Rightarrow> large_icon dflt),
           no_sound = (case Option.bind (options ''noSound'') (to_bool c) of
                         Some x \<Rightarrow> x | None \<Rightarrow> no_sound dflt),
           respect_quiet_time =
             (case Option.bind (options ''respectQuietTime'') (to_bool c) of
                Some x \<Rightarrow> x | None \<Rightarrow> respect_quiet_time dflt)\<rparr>)])"
    using alive
    by (cases dflt)
       (simp add: DisplayBalloon_def CheckDestroyed_alive Let_def Get_eq_bind [symmetric]
          split: option.splits)
  have missing:
    "Option.bind (options ''title'') (to_string16 c) = None
       \<or> Option.bind (options ''content'') (to_string16 c) = None \<Longrightarrow>
     DisplayBalloon p c dflt options t =
       ((), t, [ThrowError '''title' and 'content' must be defined''])"
    using alive
    by (auto simp add: DisplayBalloon_def CheckDestroyed_alive Get_eq_bind [symmetric]
          split: option.splits)
  have thrown:
    "ThrowError '''title' and 'content' must be defined''
       \<in> set (snd (snd (DisplayBalloon p c dflt options t)))
     \<longleftrightarrow> Option.bind (options ''title'') (to_string16 c) = None
         \<or> Option.bind (options ''content'') (to_string16 c) = None"
    using alive
    by (simp add: DisplayBalloon_def CheckDestroyed_alive Let_def Get_eq_bind [symmetric]
          split: option.splits)
  from built missing thrown show ?thesis
    unfolding icon_type_read by blast
qed

theorem DisplayBalloon_cases_witness:
  "DisplayBalloon OS_WIN example_converters example_balloon
     [''title'' \<mapsto> V8_string ''T'', ''content'' \<mapsto> V8_string ''C'',
      ''iconType'' \<mapsto> V8_string ''error'', ''largeIcon'' \<mapsto> V8_bool False,
      ''icon'' \<mapsto> V8_image 9]
     (example_tray OS_WIN) =
     ((), example_tray OS_WIN,
      [Call (TrayIcon_DisplayBalloon
         \<lparr>icon_type = Error_icon, icon = Some (GetHICON (NativeImage 9) SM_CXSMICON),
          title = map of_char ''T'', content = map of_char ''C'', large_icon = False,
          no_sound = False, respect_quiet_time = False\<rparr>)])
   \<and> DisplayBalloon OS_OTHER example_converters (example_balloon\<lparr>icon_type := Warning\<rparr>)
     [''title'' \<mapsto> V8_string ''T'', ''content'' \<mapsto> V8_string ''C'',
      ''iconType'' \<mapsto> V8_string ''Info'', ''noSound'' \<mapsto> V8_number 1]
     (example_tray OS_OTHER) =
     ((), example_tray OS_OTHER,
      [Call (TrayIcon_DisplayBalloon
         \<lparr>icon_type = Warning, icon = None,
          title = map of_char ''T'', content = map of_char ''C'', large_icon = True,
          no_sound = True, respect_quiet_time = False\<rparr>)])
   \<and> DisplayBalloon OS_WIN example_converters example_balloon
     [''title'' \<mapsto> V8_string ''T'', ''content'' \<mapsto> V8_number 3] (example_tray OS_WIN) =
     ((), example_tray OS_WIN, [ThrowError '''title' and 'content' must be defined''])"
  using DisplayBalloon_cases [where t = "example_tray OS_WIN" and p = OS_WIN
      and c = example_converters and dflt = example_balloon
      and ttl = "map of_char ''T''" and cnt = "map of_char ''C''"
      and options = "[''title'' \<mapsto> V8_string ''T'', ''content'' \<mapsto> V8_string ''C'',
        ''iconType'' \<mapsto> V8_string ''error'', ''largeIcon'' \<mapsto> V8_bool False,
        ''icon'' \<mapsto> V8_image 9]"]
    DisplayBalloon_cases [where t = "example_tray OS_OTHER" and p = OS_OTHER
      and c = example_converters and dflt = "example_balloon\<lparr>icon_type := Warning\<rparr>"
      and ttl = "map of_char ''T''" and cnt = "map of_char ''C''"
      and options = "[''title'' \<mapsto> V8_string ''T'', ''content'' \<mapsto> V8_string ''C'',
        ''iconType'' \<mapsto> V8_string ''Info'', ''noSound'' \<mapsto> V8_number 1]"]
    DisplayBalloon_cases [where t = "example_tray OS_WIN" and p = OS_WIN
      and c = example_converters and dflt = example_balloon
      and options = "[''title'' \<mapsto> V8_string ''T'', ''content'' \<mapsto> V8_number 3]"]
    example_tray_alive [of OS_WIN] example_tray_alive [of OS_OTHER]
  by (simp add: example_converters_def example_balloon_def)

subsection \<open>The context menu\<close>

text \<open>
  C5. On a tray that is not destroyed, setContextMenu with null empties the stored
  menu reference and calls \<open>SetContextMenu(nullptr)\<close>; with a value that converts
  to a menu handle it stores the handle's scripted value and calls
  \<open>SetContextMenu\<close> with the menu's model; with any other value it throws the type
  error ``Must pass Menu or null'', calls nothing and keeps the stored reference.
\<close>

theorem SetContextMenu_cases:
  "tray_icon t \<noteq> None \<Longrightarrow>
     (IsNull c arg \<longrightarrow>
        SetContextMenu c arg t =
          ((), t\<lparr>menu := None\<rparr>, [Call (TrayIcon_SetContextMenu None)]))
   \<and> (\<not> IsNull c arg \<and> to_menu c arg = Some mh \<longrightarrow>
        SetContextMenu c arg t =
          ((), t\<lparr>menu := Some (ToV8 mh)\<rparr>,
           [Call (TrayIcon_SetContextMenu (Some (model mh)))]))
   \<and> (\<not> IsNull c arg \<and> to_menu c arg = None \<longrightarrow>
        SetContextMenu c arg t = ((), t, [ThrowTypeError ''Must pass Menu or null'']))"
  by (simp add: SetContextMenu_def CheckDestroyed_alive)

theorem SetContextMenu_cases_witness:
  "SetContextMenu example_converters V8_null (example_tray OS_OTHER) =
     ((), (example_tray OS_OTHER)\<lparr>menu := None\<rparr>, [Call (TrayIcon_SetContextMenu None)])
   \<and> SetContextMenu example_converters (V8_menu 4) (example_tray OS_OTHER) =
     ((), (example_tray OS_OTHER)\<lparr>menu := Some (V8_menu 4)\<rparr>,
      [Call (TrayIcon_SetContextMenu (Some (MenuModel 4)))])
   \<and> SetContextMenu example_converters (V8_number 4) (example_tray OS_OTHER) =
     ((), example_tray OS_OTHER, [ThrowTypeError ''Must pass Menu or null''])"
  using SetContextMenu_cases [where t = "example_tray OS_OTHER" and c = example_converters
      and arg = V8_null]
    SetContextMenu_cases [where t = "example_tray OS_OTHER" and c = example_converters
      and arg = "V8_menu 4" and mh = "MenuHandle (V8_menu 4) (MenuModel 4)"]
    SetContextMenu_cases [where t = "example_tray OS_OTHER" and c = example_converters
      and arg = "V8_number 4"]
    example_tray_alive [of OS_OTHER]
  by (simp add: example_converters_def)

subsection \<open>Creation\<close>

lemma Tray_ctor_eq:
  "Tray_ctor p img g =
     (\<lparr>tray_icon = Some (TrayIcon g), menu = None\<rparr>,
      [Call (TrayIcon_Create g),
       Call (TrayIcon_SetImage (if p = OS_WIN then GetHICON img SM_CXSMICON else Image img)),
       Call TrayIcon_AddObserver])"
  by (simp add: Tray_ctor_def SetImage_def CheckDestroyed_def)

text \<open>
  C7. \<open>Tray::New\<close> throws ``Cannot create Tray before app is ready'' and returns
  an empty handle when the browser is not ready, without a call of
  \<open>TrayIcon::Create\<close>. When the browser is ready it throws ``Invalid GUID format''
  and returns an empty handle under \<open>OS_WIN\<close> if no guid was converted and more
  than one argument was passed. In every other case it returns the constructed tray.
\<close>

theorem New_cases:
  "(\<not> is_ready \<longrightarrow>
      New p is_ready img g args =
        (None, [ThrowError ''Cannot create Tray before app is ready'']))
   \<and> (is_ready \<and> p = OS_WIN \<and> g = None \<and> 1 < length args \<longrightarrow>
      New p is_ready img g args = (None, [ThrowError ''Invalid GUID format'']))
   \<and> (is_ready \<and> \<not> (p = OS_WIN \<and> g = None \<and> 1 < length args) \<longrightarrow>
      New p is_ready img g args =
        (Some (fst (Tray_ctor p img g)), snd (Tray_ctor p img g))
      \<and> New p is_ready img g args =
        (Some \<lparr>tray_icon = Some (TrayIcon g), menu = None\<rparr>,
         [Call (TrayIcon_Create g),
          Call (TrayIcon_SetImage (if p = OS_WIN then GetHICON img SM_CXSMICON else Image img)),
          Call TrayIcon_AddObserver]))"
  by (simp add: New_def Tray_ctor_def SetImage_def CheckDestroyed_def)

theorem New_cases_witness:
  "New OS_WIN False (NativeImage 1) None [V8_image 1, V8_string ''g''] =
     (None :: v8_value Tray option, [ThrowError ''Cannot create Tray before app is ready''])
   \<and> New OS_WIN True (NativeImage 1) None [V8_image 1, V8_string ''g''] =
     (None :: v8_value Tray option, [ThrowError ''Invalid GUID format''])
   \<and> New OS_OTHER True (NativeImage 1) None [V8_image 1, V8_string ''g''] =
     (Some \<lparr>tray_icon = Some (TrayIcon None), menu = None :: v8_value option\<rparr>,
      [Call (TrayIcon_Create None), Call (TrayIcon_SetImage (Image (NativeImage 1))),
       Call TrayIcon_AddObserver])"
  using New_cases [where p = OS_WIN and is_ready = False and img = "NativeImage 1"
      and g = None and args = "[V8_image 1, V8_string ''g'']"]
    New_cases [where p = OS_WIN and is_ready = True and img = "NativeImage 1"
      and g = None and args = "[V8_image 1, V8_string ''g'']"]
    New_cases [where p = OS_OTHER and is_ready = True and img = "NativeImage 1"
      and g = None and args = "[V8_image 1, V8_string ''g'']"]
  by (simp add: Tray_ctor_eq)

subsection \<open>Sequences of calls\<close>

lemma invoke_keeps_icon:
  "c \<noteq> destroy \<Longrightarrow> tray_icon (fst (snd (invoke h c t))) = tray_icon t"
  by (cases c)
     (simp_all add: tray_method_defs CheckDestroyed_def Let_def split: option.splits prod.splits)

lemma invoke_alive_same:
  "tray_icon t \<noteq> None \<Longrightarrow> tray_icon t' \<noteq> None \<Longrightarrow>
     fst (invoke h c t) = fst (invoke h c t')
     \<and> snd (snd (invoke h c t)) = snd (snd (invoke h c t'))"
  by (cases c)
     (auto simp add: tray_method_defs CheckDestroyed_alive Let_def
        split: option.splits prod.splits)

lemma invoke_alive_no_destroyed_error:
  "tray_icon t \<noteq> None \<Longrightarrow>
     ThrowError ''Tray is destroyed'' \<notin> set (snd (snd (invoke h c t)))"
  by (cases c)
     (simp_all add: tray_method_defs CheckDestroyed_alive Let_def split: option.splits prod.splits)

lemma run_keeps_icon:
  "destroy \<notin> set cs \<Longrightarrow> tray_icon (fst (run h cs t)) = tray_icon t"
proof (induction cs arbitrary: t)
  case Nil
  show ?case by simp
next
  case (Cons c cs)
  obtain r t1 es1 where i: "invoke h c t = (r, t1, es1)"
    by (cases "invoke h c t") auto
  from Cons.prems have "c \<noteq> destroy" and rest: "destroy \<notin> set cs" by auto
  with i invoke_keeps_icon [of c h t] have "tray_icon t1 = tray_icon t" by simp
  moreover from Cons.IH [OF rest, of t1] have "tray_icon (fst (run h cs t1)) = tray_icon t1" .
  ultimately show ?case using i by (auto split: prod.splits)
qed

lemma run_append:
  "run h (cs @ ds) t =
     (fst (run h ds (fst (run h cs t))), snd (run h cs t) @ snd (run h ds (fst (run h cs t))))"
  by (induction cs arbitrary: t) (auto split: prod.splits)

lemma run_alive:
  "destroy \<notin> set cs \<Longrightarrow> \<not> fst (IsDestroyed (fst (run h cs (fst (Tray_ctor p img g)))))"
  using run_keeps_icon [of cs h "fst (Tray_ctor p img g)"]
  by (simp add: IsDestroyed_def Tray_ctor_eq)

lemma run_then_destroy: "fst (IsDestroyed (fst (run h (cs @ [destroy]) t)))"
  by (simp add: run_append IsDestroyed_def Destroy_def)

text \<open>
  C6. The constructor calls \<open>TrayIcon::Create\<close> once, with the guid it was
  given, then \<open>SetImage\<close> on the icon with the initial image, then registers itself
  with \<open>AddObserver\<close>; it makes no other call and throws nothing. The tray it
  yields is not destroyed, stays so through every sequence of calls without destroy,
  and is destroyed once destroy follows.
\<close>

theorem Tray_ctor_alive_until_destroy:
  "(Tray_ctor p img g :: 'v Tray \<times> effect list) =
     (\<lparr>tray_icon = Some (TrayIcon g), menu = None\<rparr>,
      [Call (TrayIcon_Create g),
       Call (TrayIcon_SetImage (if p = OS_WIN then GetHICON img SM_CXSMICON else Image img)),
       Call TrayIcon_AddObserver])
   \<and> \<not> fst (IsDestroyed (fst (Tray_ctor p img g :: 'v Tray \<times> effect list)))
   \<and> (destroy \<notin> set cs \<longrightarrow>
        \<not> fst (IsDestroyed (fst (run (h :: 'v host) cs (fst (Tray_ctor p img g))))))
   \<and> (destroy \<notin> set cs \<longrightarrow>
        fst (IsDestroyed (fst (run h (cs @ [destroy]) (fst (Tray_ctor p img g))))))"
  by (intro conjI impI)
     (rule Tray_ctor_eq, simp add: IsDestroyed_def Tray_ctor_eq, erule run_alive,
      rule run_then_destroy)

theorem Tray_ctor_alive_until_destroy_witness:
  "\<not> fst (IsDestroyed (fst (run (example_host OS_WIN) [setToolTip ''tip'', getBounds, focus]
       (fst (Tray_ctor OS_WIN (NativeImage 2) None)))))
   \<and> fst (IsDestroyed (fst (run (example_host OS_WIN)
       ([setToolTip ''tip'', getBounds, focus] @ [destroy])
       (fst (Tray_ctor OS_WIN (NativeImage 2) None)))))"
  using Tray_ctor_alive_until_destroy [where cs = "[setToolTip ''tip'', getBounds, focus]"
      and h = "example_host OS_WIN" and p = OS_WIN and img = "NativeImage 2" and g = None]
  by (simp del: run.simps add: Tray_ctor_eq)

text \<open>
  C8, as the code has it. Until destroy is called the calls may come in any order: after
  any sequence of calls without destroy on a constructed tray, a call returns what it
  returns and does what it does right after construction, and never throws ``Tray is
  destroyed''.
\<close>

theorem calls_order_free_until_destroy:
  "destroy \<notin> set cs \<Longrightarrow>
     fst (invoke h c (fst (run h cs (fst (Tray_ctor p img g)))))
       = fst (invoke h c (fst (Tray_ctor p img g)))
   \<and> snd (snd (invoke h c (fst (run h cs (fst (Tray_ctor p img g))))))
       = snd (snd (invoke h c (fst (Tray_ctor p img g))))
   \<and> ThrowError ''Tray is destroyed''
       \<notin> set (snd (snd (invoke h c (fst (run h cs (fst (Tray_ctor p img g)))))))"
proof -
  assume nd: "destroy \<notin> set cs"
  let ?t0 = "fst (Tray_ctor p img g) :: 'a Tray"
  have a0: "tray_icon ?t0 \<noteq> None" by (simp add: Tray_ctor_eq)
  from run_keeps_icon [OF nd, of h ?t0] a0
  have a1: "tray_icon (fst (run h cs ?t0)) \<noteq> None" by simp
  from invoke_alive_same [OF a1 a0, of h c] invoke_alive_no_destroyed_error [OF a1, of h c]
  show ?thesis by simp
qed

theorem calls_order_free_until_destroy_witness:
  "snd (snd (invoke (example_host OS_OTHER) (setToolTip ''tip'')
       (fst (run (example_host OS_OTHER) [setContextMenu (V8_menu 1), removeBalloon]
          (fst (Tray_ctor OS_OTHER (NativeImage 2) None))))))
     = snd (snd (invoke (example_host OS_OTHER) (setToolTip ''tip'')
         (fst (Tray_ctor OS_OTHER (NativeImage 2) None))))"
  using calls_order_free_until_destroy [where cs = "[setContextMenu (V8_menu 1), removeBalloon]"
      and h = "example_host OS_OTHER" and c = "setToolTip ''tip''" and p = OS_OTHER
      and img = "NativeImage 2" and g = None]
  by (simp del: run.simps invoke.simps)

text \<open>
  C8 as stated fails: destroy ends the life of the binding. The same setToolTip that is
  forwarded on a fresh tray throws ``Tray is destroyed'' when destroy came before it.
\<close>

theorem destroy_then_call_counterexample:
  "snd (run (example_host OS_OTHER) [setToolTip ''tip''] (example_tray OS_OTHER)) =
     [Call (TrayIcon_SetToolTip ''tip'')]
   \<and> snd (run (example_host OS_OTHER) [destroy, setToolTip ''tip''] (example_tray OS_OTHER)) =
     [ThrowError ''Tray is destroyed'']"
  by (simp add: example_tray_eq SetToolTip_def Destroy_def CheckDestroyed_def)

subsection \<open>Kinds of event\<close>

text \<open>
  C9. Every callback emits an event of exactly one of the four kinds click, drag,
  mouse and balloon, and each kind is delivered: the three click callbacks emit click
  events, the three balloon callbacks balloon events, the five mouse callbacks mouse
  events, and the three drag callbacks and the three drop callbacks, the drop being the
  end of a drag, drag events. No callback emits an event of no kind.
\<close>

theorem notify_categories:
  "emitted_categories (notify (Clicked b l m)) = [Some Click_event]
   \<and> emitted_categories (notify (DoubleClicked b m)) = [Some Click_event]
   \<and> emitted_categories (notify (RightClicked b m)) = [Some Click_event]
   \<and> emitted_categories (notify BalloonShow) = [Some Balloon_event]
   \<and> emitted_categories (notify BalloonClicked) = [Some Balloon_event]
   \<and> emitted_categories (notify BalloonClosed) = [Some Balloon_event]
   \<and> emitted_categories (notify Drop) = [Some Drag_event]
   \<and> emitted_categories (notify (DropFiles fs)) = [Some Drag_event]
   \<and> emitted_categories (notify (DropText s)) = [Some Drag_event]
   \<and> emitted_categories (notify (MouseEntered l m)) = [Some Mouse_event]
   \<and> emitted_categories (notify (MouseExited l m)) = [Some Mouse_event]
   \<and> emitted_categories (notify (MouseMoved l m)) = [Some Mouse_event]
   \<and> emitted_categories (notify (MouseUp l m)) = [Some Mouse_event]
   \<and> emitted_categories (notify (MouseDown l m)) = [Some Mouse_event]
   \<and> emitted_categories (notify DragEntered) = [Some Drag_event]
   \<and> emitted_categories (notify DragExited) = [Some Drag_event]
   \<and> emitted_categories (notify DragEnded) = [Some Drag_event]
   \<and> (\<exists>cat. emitted_categories (notify cb) = [Some cat])"
  by (cases cb)
     (simp_all add: emitted_categories_def category_of_name_def
        OnClicked_def OnDoubleClicked_def OnRightClicked_def OnBalloonShow_def
        OnBalloonClicked_def OnBalloonClosed_def OnDrop_def OnDropFiles_def OnDropText_def
        OnMouseEntered_def OnMouseExited_def OnMouseMoved_def OnMouseUp_def OnMouseDown_def
        OnDragEntered_def OnDragExited_def OnDragEnded_def)

theorem notify_categories_witness:
  "emitted_categories (notify (DropText ''abc'')) = [Some Drag_event]
   \<and> emitted_categories (notify (MouseMoved (Point 1 2) 0)) = [Some Mouse_event]
   \<and> category_of_name ''drop-text'' = Some Drag_event
   \<and> category_of_name ''dropped'' = None"
  using notify_categories [where s = "''abc''" and l = "Point 1 2" and m = 0]
  by (simp add: category_of_name_def)

end
